theory Spec2Isabelle
  imports Complex_Main
begin

section \<open>Sticker processing: errors and scalar helpers\<close>

text \<open>
  The exceptions the script can raise, as values.  \<open>OSError\<close> stands for whatever the
  image codec raises when a file cannot be read.
\<close>

datatype error = TypeError | ZeroDivisionError | ValueError | IndexError | OSError

text \<open>
  Python's floats are IEEE doubles: a float is the real number it stands for, and each
  arithmetic operation returns the exact result rounded to a double.  The rounding is
  the parameter \<open>rnd\<close> of the definitions below; comparisons and \<^verbatim>\<open>int(x)\<close> are exact.
  Infinities and NaN are not modelled.

  Python's true division \<^verbatim>\<open>a / b\<close> on numbers: a zero divisor raises.
\<close>

definition py_truediv :: "(real \<Rightarrow> real) \<Rightarrow> real \<Rightarrow> real \<Rightarrow> error + real" where
  "py_truediv rnd a b = (if b = 0 then Inl ZeroDivisionError else Inr (rnd (a / b)))"

text \<open>Python's \<^verbatim>\<open>int(x)\<close> on a float: truncation towards zero.\<close>

definition py_int :: "real \<Rightarrow> int" where
  "py_int x = (if 0 \<le> x then \<lfloor>x\<rfloor> else \<lceil>x\<rceil>)"

subsection \<open>find_smallest_size\<close>

text \<open>
  \<^verbatim>\<open>
  def find_smallest_size(size: float, size_list: list):
      for size_to_check in sorted(size_list):
          if size < size_to_check:
              return size_to_check
      raise ValueError(...)
  \<close>
  The loop over the sorted list is \<open>first_greater\<close>.
\<close>

fun first_greater :: "real \<Rightarrow> real list \<Rightarrow> error + real" where
  "first_greater sz [] = Inl ValueError"
| "first_greater sz (size_to_check # rest) =
     (if sz < size_to_check then Inr size_to_check else first_greater sz rest)"

definition find_smallest_size :: "real \<Rightarrow> real list \<Rightarrow> error + real" where
  "find_smallest_size sz size_lst = first_greater sz (sort size_lst)"


section \<open>Masks and the distance-field expansion\<close>

text \<open>
  A binary mask is a two-dimensional boolean array, row-major; a distance field is a
  two-dimensional array of floats of the same extent.
\<close>

type_synonym mask = "bool list list"
type_synonym field = "real list list"

text \<open>Shape of a rectangular array: \<open>ncols\<close> is the length of the rows.\<close>

definition ncols :: "'a list list \<Rightarrow> nat" where
  "ncols m = (case m of [] \<Rightarrow> 0 | row # _ \<Rightarrow> length row)"

definition shape2 :: "'a list list \<Rightarrow> nat \<times> nat" where
  "shape2 m = (length m, ncols m)"

definition rectangular :: "'a list list \<Rightarrow> bool" where
  "rectangular m = list_all (\<lambda>row. length row = ncols m) m"

text \<open>Reading a pixel; positions outside the array read as off.\<close>

definition pixel_on :: "mask \<Rightarrow> nat \<times> nat \<Rightarrow> bool" where
  "pixel_on m p = (case p of (r, c) \<Rightarrow> r < length m \<and> c < length (m ! r) \<and> m ! r ! c)"

text \<open>\<^verbatim>\<open>~mask\<close> and \<^verbatim>\<open>a ^ b\<close> on boolean arrays.\<close>

definition invert :: "mask \<Rightarrow> mask" where
  "invert m = map (map Not) m"

definition mask_xor :: "mask \<Rightarrow> mask \<Rightarrow> mask" where
  "mask_xor a b = map2 (map2 (\<lambda>x y. x \<noteq> y)) a b"

text \<open>Inclusion of masks of one shape: every pixel on in \<open>a\<close> is on in \<open>b\<close>.\<close>

definition mask_subset :: "mask \<Rightarrow> mask \<Rightarrow> bool" where
  "mask_subset a b = list_all2 (list_all2 (\<lambda>x y. x \<longrightarrow> y)) a b"

text \<open>
  \<^verbatim>\<open>
  def expand_edge(mask_image, thickness):
      phi = numpy.where(numpy.int64(mask_image), -0.5, 0.5)
      signed_distance = skfmm.distance(phi, dx = 1)
      return (signed_distance <= thickness)
  \<close>
  \<^verbatim>\<open>skfmm.distance\<close> is a library function: it is the parameter \<open>distance\<close>, which
  either raises or returns a field.
\<close>

definition phi_of :: "mask \<Rightarrow> field" where
  "phi_of mask_image = map (map (\<lambda>b. if b then - (1 / 2) else 1 / 2)) mask_image"

definition expand_edge :: "(field \<Rightarrow> error + field) \<Rightarrow> mask \<Rightarrow> real \<Rightarrow> error + mask" where
  "expand_edge distance mask_image thickness =
     (case distance (phi_of mask_image) of
        Inl e \<Rightarrow> Inl e
      | Inr signed_distance \<Rightarrow> Inr (map (map (\<lambda>d. d \<le> thickness)) signed_distance))"

text \<open>
  What the pipeline relies on from the solver (the DistanceField of the data model:
  same extent as the mask, negative inside the mask region, positive outside).
\<close>

definition sign_preserved :: "field \<Rightarrow> field \<Rightarrow> bool" where
  "sign_preserved phi sd =
     list_all2 (list_all2 (\<lambda>p d. (p < 0 \<and> d < 0) \<or> (0 < p \<and> 0 < d))) phi sd"

definition signed_distance_contract :: "(field \<Rightarrow> error + field) \<Rightarrow> field \<Rightarrow> bool" where
  "signed_distance_contract distance phi =
     (case distance phi of Inl e \<Rightarrow> True | Inr sd \<Rightarrow> sign_preserved phi sd)"

text \<open>
  A mask has a boundary when at least one of its pixels is on and at least one is off:
  the field built from it then has a zero contour.  On every such mask the solver
  returns a field, negative inside the mask and positive outside; a field with no zero
  contour it rejects.
\<close>

definition has_boundary :: "mask \<Rightarrow> bool" where
  "has_boundary m = (list_ex (list_ex (\<lambda>b. b)) m \<and> list_ex (list_ex Not) m)"

definition returns_signed_distance :: "(field \<Rightarrow> error + field) \<Rightarrow> bool" where
  "returns_signed_distance distance =
     (\<forall>m. has_boundary m \<longrightarrow>
        (\<exists>sd. distance (phi_of m) = Inr sd \<and> sign_preserved (phi_of m) sd))"

section \<open>Canvas fitting helpers\<close>

text \<open>
  \<^verbatim>\<open>
  def adjust_image_size(matrix, bbox, target_size_px, pad_value):
      bbox_x, bbox_y, bbox_width, bbox_height = bbox
      pad_x1 = (target_size_px - bbox_width) // 2
      pad_y1 = (target_size_px - bbox_height) // 2
      pad_x2 = (target_size_px - bbox_width) - pad_x1
      pad_y2 = (target_size_px - bbox_height) - pad_y1
      padding = [(pad_y1, pad_y2), (pad_x1, pad_x2)]
      dims = len(matrix.shape)
      if dims == 3:
          padding.append((0, 0))
      source_pixels = matrix[bbox_y : bbox_y + bbox_height,
                             bbox_x : bbox_x + bbox_width]
      return numpy.pad(source_pixels, padding, constant_values=pad_value)
  \<close>
  The matrix is two-dimensional in its first two axes; a third axis (the channels of a
  colour image) is the pixel type \<open>'a\<close> and is padded by \<open>(0, 0)\<close>, that is left as it
  is.  Slices clamp to the array, as \<open>take\<close> and \<open>drop\<close> do.  \<^verbatim>\<open>numpy.pad\<close> raises
  ValueError on a negative pad width.
\<close>

definition crop :: "'a list list \<Rightarrow> nat \<times> nat \<times> nat \<times> nat \<Rightarrow> 'a list list" where
  "crop matrix bbox =
     (case bbox of (bbox_x, bbox_y, bbox_width, bbox_height) \<Rightarrow>
        map (\<lambda>row. take bbox_width (drop bbox_x row)) (take bbox_height (drop bbox_y matrix)))"

definition pad2 :: "'a list list \<Rightarrow> nat \<Rightarrow> nat \<times> nat \<Rightarrow> nat \<times> nat \<Rightarrow> 'a \<Rightarrow> 'a list list" where
  "pad2 source_pixels width pad_y pad_x pad_value =
     (case (pad_y, pad_x) of ((pad_y1, pad_y2), (pad_x1, pad_x2)) \<Rightarrow>
        replicate pad_y1 (replicate (pad_x1 + width + pad_x2) pad_value)
        @ map (\<lambda>row. replicate pad_x1 pad_value @ row @ replicate pad_x2 pad_value) source_pixels
        @ replicate pad_y2 (replicate (pad_x1 + width + pad_x2) pad_value))"

definition adjust_image_size ::
  "'a list list \<Rightarrow> nat \<times> nat \<times> nat \<times> nat \<Rightarrow> int \<Rightarrow> 'a \<Rightarrow> error + 'a list list" where
  "adjust_image_size matrix bbox target_size_px pad_value =
     (case bbox of (bbox_x, bbox_y, bbox_width, bbox_height) \<Rightarrow>
        let pad_x1 = (target_size_px - int bbox_width) div 2;
            pad_y1 = (target_size_px - int bbox_height) div 2;
            pad_x2 = (target_size_px - int bbox_width) - pad_x1;
            pad_y2 = (target_size_px - int bbox_height) - pad_y1;
            source_pixels = crop matrix bbox;
            source_width = min bbox_width (ncols matrix - bbox_x)
        in if pad_y1 < 0 \<or> pad_y2 < 0 \<or> pad_x1 < 0 \<or> pad_x2 < 0 then Inl ValueError
           else Inr (pad2 source_pixels source_width (nat pad_y1, nat pad_y2)
                       (nat pad_x1, nat pad_x2) pad_value))"

section \<open>Connected regions and hole removal\<close>

text \<open>Sequencing of steps that may raise: the first error ends the computation.\<close>

definition bind_err :: "error + 'a \<Rightarrow> ('a \<Rightarrow> error + 'b) \<Rightarrow> error + 'b" where
  "bind_err x f = (case x of Inl e \<Rightarrow> Inl e | Inr v \<Rightarrow> f v)"

text \<open>
  One entry of \<^verbatim>\<open>skimage.measure.regionprops(skimage.measure.label(mask))\<close>: the
  component's label, the (row, column) coordinates of its pixels, and its bounding box
  (min_row, min_col, max_row, max_col), half-open.  The library returns the entries in
  ascending label order; \<^verbatim>\<open>num_pixels\<close> is the number of coordinates.  Labelling and
  region extraction are library functions: together they are the parameter
  \<open>label_regions\<close> of the definitions below.
\<close>

record region =
  label :: nat
  coords :: "(nat \<times> nat) list"
  bbox :: "nat \<times> nat \<times> nat \<times> nat"

definition num_pixels :: "region \<Rightarrow> nat" where
  "num_pixels r = length (coords r)"

text \<open>
  \<^verbatim>\<open>outside_mask[tuple(props.coords.T)] = False\<close>: every listed pixel is switched
  off; an index outside the array raises IndexError.
\<close>

definition in_bounds :: "'a list list \<Rightarrow> nat \<times> nat \<Rightarrow> bool" where
  "in_bounds m p = (case p of (r, c) \<Rightarrow> r < length m \<and> c < length (m ! r))"

definition clear_pixel :: "mask \<Rightarrow> nat \<times> nat \<Rightarrow> mask" where
  "clear_pixel m p = (case p of (r, c) \<Rightarrow> m[r := (m ! r)[c := False]])"

definition clear_coords :: "mask \<Rightarrow> (nat \<times> nat) list \<Rightarrow> error + mask" where
  "clear_coords m cs =
     (if list_all (in_bounds m) cs then Inr (foldl clear_pixel m cs) else Inl IndexError)"

text \<open>
  \<^verbatim>\<open>
  label = skimage.measure.label(numpy.int64(outside_mask))
  regions = skimage.measure.regionprops(label)
  regions = sorted(regions, key=lambda x: -x.num_pixels)
  for props in regions[1:]:
      outside_mask[tuple(props.coords.T)] = False
  \<close>
  Python's \<^verbatim>\<open>sorted\<close> is stable, as \<open>sort_key\<close> is.
\<close>

definition sorted_regions :: "region list \<Rightarrow> region list" where
  "sorted_regions regions = sort_key (\<lambda>x. - int (num_pixels x)) regions"

fun clear_regions :: "mask \<Rightarrow> region list \<Rightarrow> error + mask" where
  "clear_regions m [] = Inr m"
| "clear_regions m (props # rest) =
     bind_err (clear_coords m (coords props)) (\<lambda>m'. clear_regions m' rest)"

definition remove_holes :: "(mask \<Rightarrow> region list) \<Rightarrow> mask \<Rightarrow> error + mask" where
  "remove_holes label_regions outside_mask =
     clear_regions outside_mask (drop 1 (sorted_regions (label_regions outside_mask)))"

text \<open>The (row, column) positions of an array, laid out as the array is.\<close>

definition positions :: "'a list list \<Rightarrow> (nat \<times> nat) list list" where
  "positions m = map (\<lambda>r. map (Pair r) [0..<length (m ! r)]) [0..<length m]"

text \<open>
  What the hole removal relies on from the labelling: the regions are non-empty, list
  each of their pixels once, are pairwise disjoint, and together cover exactly the
  pixels that are on in the mask.
\<close>

definition regions_partition :: "mask \<Rightarrow> region list \<Rightarrow> bool" where
  "regions_partition m regions =
     (list_all (\<lambda>r. coords r \<noteq> []) regions
      \<and> distinct (concat (map coords regions))
      \<and> list_all (pixel_on m) (concat (map coords regions))
      \<and> list_all (\<lambda>p. p \<in> set (concat (map coords regions)))
            (filter (pixel_on m) (concat (positions m))))"

text \<open>The regions with the greatest pixel count, in label order.\<close>

definition largest_regions :: "region list \<Rightarrow> region list" where
  "largest_regions regions =
     filter (\<lambda>r. list_all (\<lambda>r'. num_pixels r' \<le> num_pixels r) regions) regions"

section \<open>Cut geometry\<close>

text \<open>
  \<^verbatim>\<open>skimage.morphology.binary_dilation(cut_mask)\<close> with the default footprint: a pixel
  is on in the result when it or one of its four edge neighbours is on; pixels outside
  the array count as off.
\<close>

definition binary_dilation :: "mask \<Rightarrow> mask" where
  "binary_dilation m =
     map (map (\<lambda>p. case p of (r, c) \<Rightarrow>
                  pixel_on m (r, c)
                  \<or> (0 < r \<and> pixel_on m (r - 1, c)) \<or> pixel_on m (r + 1, c)
                  \<or> (0 < c \<and> pixel_on m (r, c - 1)) \<or> pixel_on m (r, c + 1)))
         (positions m)"

text \<open>
  Lines 175 to 197 of \<^verbatim>\<open>main\<close>, from the thresholded art mask to the three masks:
  \<^verbatim>\<open>
  outside_mask = ~expand_edge(art_mask, thickness + min_corner_radius)
  ... hole removal ...
  cut_mask = ~expand_edge(outside_mask, min_corner_radius)
  cut_contour = skimage.morphology.binary_dilation(cut_mask) ^ cut_mask
  bleed_mask = expand_edge(cut_mask, bleed_thickness)
  \<close>
\<close>

record geometry =
  cut_mask :: mask
  cut_contour :: mask
  bleed_mask :: mask

definition cut_geometry ::
  "(real \<Rightarrow> real) \<Rightarrow> (field \<Rightarrow> error + field) \<Rightarrow> (mask \<Rightarrow> region list) \<Rightarrow> mask
     \<Rightarrow> real \<Rightarrow> real \<Rightarrow> real \<Rightarrow> error + geometry" where
  "cut_geometry rnd distance label_regions art_mask thickness min_corner_radius
     bleed_thickness =
     bind_err (expand_edge distance art_mask (rnd (thickness + min_corner_radius))) (\<lambda>grown.
     bind_err (remove_holes label_regions (invert grown)) (\<lambda>outside_mask.
     bind_err (expand_edge distance outside_mask min_corner_radius) (\<lambda>shrunk.
     bind_err (expand_edge distance (invert shrunk) bleed_thickness) (\<lambda>bleed.
     Inr \<lparr> cut_mask = invert shrunk,
           cut_contour = mask_xor (binary_dilation (invert shrunk)) (invert shrunk),
           bleed_mask = bleed \<rparr>))))"

section \<open>Canvas fitting\<close>

text \<open>
  \<^verbatim>\<open>
  label = skimage.measure.label(numpy.int64(bleed_mask))
  regions = skimage.measure.regionprops(label)
  bbox = (regions[0].bbox[1], regions[0].bbox[0],
          regions[0].bbox[3] - regions[0].bbox[1],
          regions[0].bbox[2] - regions[0].bbox[0])
  \<close>
  \<^verbatim>\<open>regions[0]\<close> raises IndexError on an empty list.  A region's bounding box has
  min at most max, so the differences are natural numbers.
\<close>

definition bbox_xywh :: "region \<Rightarrow> nat \<times> nat \<times> nat \<times> nat" where
  "bbox_xywh r = (case bbox r of (b0, b1, b2, b3) \<Rightarrow> (b1, b0, b3 - b1, b2 - b0))"

definition bounding_box :: "region list \<Rightarrow> error + nat \<times> nat \<times> nat \<times> nat" where
  "bounding_box regions = (case regions of [] \<Rightarrow> Inl IndexError | r0 # _ \<Rightarrow> Inr (bbox_xywh r0))"

text \<open>A colour image: rows of pixels, each pixel its list of channel values.\<close>

type_synonym colour = "nat list list list"

definition channels :: "colour \<Rightarrow> nat" where
  "channels img = (case img of (px # _) # _ \<Rightarrow> length px | _ \<Rightarrow> 0)"

text \<open>
  Lines 201 to 222 of \<^verbatim>\<open>main\<close>:
  \<^verbatim>\<open>
  art_size_px = max(bbox[2], bbox[3])
  art_size_inches = art_size_px / dpi
  target_size_inches = find_smallest_size(art_size_inches, size_list)
  target_size_px = int(target_size_inches * dpi)
  color_image = adjust_image_size(color_image, bbox, target_size_px, pad_value=0)
  bleed_mask = adjust_image_size(bleed_mask, bbox, target_size_px, pad_value=False)
  cut_mask = adjust_image_size(cut_mask, bbox, target_size_px, pad_value=False)
  cut_contour = adjust_image_size(cut_contour, bbox, target_size_px, pad_value=False)
  \<close>
  Padding a colour image with 0 fills every channel of the new pixels with 0.
\<close>

record fitted =
  target_size_inches :: real
  target_size_px :: int
  fit_bbox :: "nat \<times> nat \<times> nat \<times> nat"
  fit_color :: colour
  fit_bleed :: mask
  fit_cut :: mask
  fit_contour :: mask

definition canvas_fit ::
  "(real \<Rightarrow> real) \<Rightarrow> (mask \<Rightarrow> region list) \<Rightarrow> real \<Rightarrow> real list \<Rightarrow> colour \<Rightarrow> geometry
     \<Rightarrow> error + fitted" where
  "canvas_fit rnd label_regions dpi size_lst color_image g =
     bind_err (bounding_box (label_regions (bleed_mask g))) (\<lambda>bb.
     bind_err (py_truediv rnd (real (max (fst (snd (snd bb))) (snd (snd (snd bb))))) dpi)
       (\<lambda>art_size_inches.
     bind_err (find_smallest_size art_size_inches size_lst) (\<lambda>tsi.
     bind_err (adjust_image_size color_image bb (py_int (rnd (tsi * dpi)))
                 (replicate (channels color_image) 0)) (\<lambda>color'.
     bind_err (adjust_image_size (bleed_mask g) bb (py_int (rnd (tsi * dpi))) False) (\<lambda>bleed'.
     bind_err (adjust_image_size (cut_mask g) bb (py_int (rnd (tsi * dpi))) False) (\<lambda>cut'.
     bind_err (adjust_image_size (cut_contour g) bb (py_int (rnd (tsi * dpi))) False) (\<lambda>contour'.
     Inr \<lparr> target_size_inches = tsi, target_size_px = py_int (rnd (tsi * dpi)), fit_bbox = bb,
           fit_color = color', fit_bleed = bleed', fit_cut = cut', fit_contour = contour' \<rparr>)))))))"

section \<open>The per-design pipeline and the driver loop\<close>

text \<open>
  Values of the configuration mappings, and what \<^verbatim>\<open>imageio.v3.imread\<close> returns: a
  two-dimensional (grey) or a three-dimensional (rows, columns, channels) array.
\<close>

datatype yaml = Num real | Str string

datatype image = Gray "nat list list" | Colour colour

text \<open>
  The world outside the script: the image codec and the file system, the rounding of
  the machine's double arithmetic, the fast-marching solver \<^verbatim>\<open>skfmm.distance\<close>, and
  connected-component labelling with region extraction (\<^verbatim>\<open>skimage.measure.label\<close>
  followed by \<^verbatim>\<open>regionprops\<close>).
\<close>

record env =
  imread :: "string \<Rightarrow> error + image"
  is_file :: "string \<Rightarrow> bool"
  float_round :: "real \<Rightarrow> real"
  skfmm_distance :: "field \<Rightarrow> error + field"
  skimage_regions :: "mask \<Rightarrow> region list"

text \<open>
  The settings read at lines 110 to 113 and 166, after the defaults have been filled in.
\<close>

record params =
  alpha_threshold :: real
  thickness_inches :: real
  bleed_thickness_inches :: real
  min_corner_radius_inches :: real
  sizes :: "real list"

text \<open>
  Paths are strings.  \<^verbatim>\<open>a / b\<close> on paths: an absolute right side replaces the left
  side, an empty one leaves it, and otherwise the two are joined with a separator (the
  string may differ from the library's normal form in repeated separators and dot
  components, and names the same file).  A configured path that is not a string raises
  TypeError.
  \<^verbatim>\<open>
  design_dir = root_design_dir / design_name
  art_path = design_dir / f"{design_name}_art.png"
  mask_path = design_dir / f"{design_name}_mask.png"
  if "art" in design_details:
      art_path = design_dir / Path(design_details["art"])
  if "mask" in design_details:
      mask_path = design_dir / design_details.get("mask", art_path)
  elif not mask_path.is_file():
      mask_path = art_path
  \<close>
\<close>

definition path_join :: "string \<Rightarrow> string \<Rightarrow> string" where
  "path_join a b =
     (case b of
        [] \<Rightarrow> a
      | c # _ \<Rightarrow> if c = CHR ''/'' then b else a @ ''/'' @ b)"

definition as_path :: "yaml \<Rightarrow> error + string" where
  "as_path v = (case v of Str s \<Rightarrow> Inr s | Num _ \<Rightarrow> Inl TypeError)"

definition resolve_paths ::
  "env \<Rightarrow> string \<Rightarrow> string \<Rightarrow> (string \<rightharpoonup> yaml) \<Rightarrow> error + string \<times> string" where
  "resolve_paths e root_design_dir design_name design_details =
     (let design_dir = path_join root_design_dir design_name in
      bind_err (case design_details ''art'' of
                  None \<Rightarrow> Inr (path_join design_dir (design_name @ ''_art.png''))
                | Some v \<Rightarrow> bind_err (as_path v) (\<lambda>p. Inr (path_join design_dir p)))
        (\<lambda>art_path.
      bind_err (case design_details ''mask'' of
                  Some v \<Rightarrow> bind_err (as_path v) (\<lambda>p. Inr (path_join design_dir p))
                | None \<Rightarrow>
                    Inr (if is_file e (path_join design_dir (design_name @ ''_mask.png''))
                         then path_join design_dir (design_name @ ''_mask.png'')
                         else art_path))
        (\<lambda>mask_path. Inr (art_path, mask_path))))"

text \<open>
  \<^verbatim>\<open>_, width, _ = color_image.shape\<close> raises ValueError unless the array has three
  axes.
\<close>

definition colour_of :: "image \<Rightarrow> error + colour" where
  "colour_of img = (case img of Gray _ \<Rightarrow> Inl ValueError | Colour rows \<Rightarrow> Inr rows)"

text \<open>
  \<^verbatim>\<open>
  if "width" not in design_details:
      print("  Width not specified, defaulting to 300 dpi")
      width_inches = None
  else:
      width_inches = design_details["width"]
  ...
  dpi = (width / width_inches)
  \<close>
  Dividing an int by \<^verbatim>\<open>None\<close> or by a string raises TypeError.
\<close>

definition compute_dpi :: "(real \<Rightarrow> real) \<Rightarrow> nat \<Rightarrow> yaml option \<Rightarrow> error + real" where
  "compute_dpi rnd width width_inches =
     (case width_inches of
        None \<Rightarrow> Inl TypeError
      | Some (Str _) \<Rightarrow> Inl TypeError
      | Some (Num w) \<Rightarrow> py_truediv rnd (real width) w)"

text \<open>
  \<^verbatim>\<open>art_mask = (mask_image[:,:,3] > alpha_threshold)\<close>: IndexError unless the array
  has three axes and at least four channels.
\<close>

definition alpha_mask :: "image \<Rightarrow> real \<Rightarrow> error + mask" where
  "alpha_mask mask_image threshold =
     (case mask_image of
        Gray _ \<Rightarrow> Inl IndexError
      | Colour rows \<Rightarrow>
          if list_all (list_all (\<lambda>px. 3 < length px)) rows
          then Inr (map (map (\<lambda>px. threshold < real (px ! 3))) rows)
          else Inl IndexError)"

text \<open>
  \<^verbatim>\<open>image[mask, :] = colour\<close>: the boolean index must have the shape of the image's
  first two axes (IndexError), and the colour must fit the channels (ValueError).
\<close>

definition paint :: "colour \<Rightarrow> mask \<Rightarrow> nat list \<Rightarrow> error + colour" where
  "paint img m v =
     (if shape2 img \<noteq> shape2 m then Inl IndexError
      else if channels img \<noteq> length v then Inl ValueError
      else Inr (map2 (map2 (\<lambda>px b. if b then v else px)) img m))"

definition white_transparent :: "nat list" where
  "white_transparent = [255, 255, 255, 0]"

definition black_opaque :: "nat list" where
  "black_opaque = [0, 0, 0, 255]"

definition gray_opaque :: "nat list" where
  "gray_opaque = [128, 128, 128, 255]"

text \<open>
  What one processed design leaves behind: the three images and the info record (name,
  dpi, size_inches, size_pixels).  Failures of the writes themselves are not modelled.
\<close>

record design_output =
  out_name :: string
  out_dpi :: real
  size_inches :: real
  size_pixels :: int
  full_bleed_image :: colour
  cut_mask_image :: colour
  preview :: colour

definition composite :: "string \<Rightarrow> real \<Rightarrow> fitted \<Rightarrow> error + design_output" where
  "composite design_name dpi f =
     bind_err (paint (fit_color f) (invert (fit_bleed f)) white_transparent) (\<lambda>full_bleed.
     bind_err (paint (fit_color f) (invert (fit_cut f)) white_transparent) (\<lambda>cm.
     bind_err (paint cm (fit_cut f) black_opaque) (\<lambda>cm'.
     bind_err (paint (fit_color f) (invert (fit_bleed f)) gray_opaque) (\<lambda>pv.
     bind_err (paint pv (fit_contour f) black_opaque) (\<lambda>pv'.
     Inr \<lparr> out_name = design_name, out_dpi = dpi,
           size_inches = target_size_inches f, size_pixels = target_size_px f,
           full_bleed_image = full_bleed, cut_mask_image = cm', preview = pv' \<rparr>)))))"

text \<open>
  The body of the loop of \<^verbatim>\<open>main\<close> for one design (lines 119 to 270).  The settings
  are merged into the design's details where the design does not give a key; the
  pipeline then reads \<open>art\<close>, \<open>mask\<close> and \<open>width\<close> from the details.
\<close>

definition process_design ::
  "env \<Rightarrow> params \<Rightarrow> (string \<rightharpoonup> yaml) \<Rightarrow> string \<Rightarrow> string \<times> (string \<rightharpoonup> yaml)
     \<Rightarrow> error + design_output" where
  "process_design e ps settings root_design_dir design =
     (case design of (design_name, details) \<Rightarrow>
      let design_details = settings ++ details in
      bind_err (resolve_paths e root_design_dir design_name design_details) (\<lambda>paths.
      bind_err (imread e (fst paths)) (\<lambda>color_image.
      bind_err (imread e (snd paths)) (\<lambda>mask_image.
      bind_err (colour_of color_image) (\<lambda>color_rows.
      bind_err (compute_dpi (float_round e) (ncols color_rows) (design_details ''width''))
        (\<lambda>dpi.
      bind_err (alpha_mask mask_image (alpha_threshold ps)) (\<lambda>art_mask.
      bind_err (cut_geometry (float_round e) (skfmm_distance e) (skimage_regions e) art_mask
                  (float_round e (thickness_inches ps * dpi))
                  (float_round e (min_corner_radius_inches ps * dpi))
                  (float_round e (bleed_thickness_inches ps * dpi))) (\<lambda>g.
      bind_err (canvas_fit (float_round e) (skimage_regions e) dpi (sizes ps) color_rows g)
        (\<lambda>f.
      composite design_name dpi f)))))))))"

text \<open>
  \<^verbatim>\<open>
  for design_name, design_details in data["designs"].items():
      if design_name_list and design_name not in design_name_list:
          continue
      print(f"Processing design: {design_name}")
      ...
  \<close>
  The loop has no exception handler: an exception raised by the body leaves the loop
  and the program.  The result of a run is the list of designs whose processing was
  started (the names printed), the outputs written, and the exception that ended the
  run, if any.
\<close>

record run =
  started :: "string list"
  written :: "design_output list"
  failure :: "error option"

fun main_loop ::
  "env \<Rightarrow> params \<Rightarrow> (string \<rightharpoonup> yaml) \<Rightarrow> string \<Rightarrow> string list
     \<Rightarrow> (string \<times> (string \<rightharpoonup> yaml)) list \<Rightarrow> run" where
  "main_loop e ps settings root_design_dir design_name_list [] =
     \<lparr> started = [], written = [], failure = None \<rparr>"
| "main_loop e ps settings root_design_dir design_name_list (design # rest) =
     (if design_name_list \<noteq> [] \<and> fst design \<notin> set design_name_list
      then main_loop e ps settings root_design_dir design_name_list rest
      else case process_design e ps settings root_design_dir design of
             Inl err \<Rightarrow> \<lparr> started = [fst design], written = [], failure = Some err \<rparr>
           | Inr out \<Rightarrow>
               (let r = main_loop e ps settings root_design_dir design_name_list rest
                in r \<lparr> started := fst design # started r, written := out # written r \<rparr>))"

section \<open>Reference instances of the library functions\<close>

text \<open>
  The worked examples below need concrete library functions.  \<open>example_distance\<close> is
  the signed city-block distance to the nearest pixel of the other sign, less one half
  (the exact signed distance on a single row); like the solver it rejects a field with
  no sign change.  \<open>example_regions\<close> lists the 8-connected components of a mask in the
  raster order of their first pixels.
\<close>

fun least :: "nat list \<Rightarrow> nat" where
  "least [] = 0"
| "least [x] = x"
| "least (x # y # ys) = min x (least (y # ys))"

fun greatest :: "nat list \<Rightarrow> nat" where
  "greatest [] = 0"
| "greatest (x # xs) = max x (greatest xs)"

definition cityblock :: "nat \<times> nat \<Rightarrow> nat \<times> nat \<Rightarrow> nat" where
  "cityblock p q = nat (\<bar>int (fst p) - int (fst q)\<bar> + \<bar>int (snd p) - int (snd q)\<bar>)"

definition example_distance :: "field \<Rightarrow> error + field" where
  "example_distance phi =
     (let inside = filter (\<lambda>p. phi ! fst p ! snd p < 0) (concat (positions phi));
          outside = filter (\<lambda>p. 0 < phi ! fst p ! snd p) (concat (positions phi))
      in if inside = [] \<or> outside = [] then Inl ValueError
         else Inr (map (map (\<lambda>p. if phi ! fst p ! snd p < 0
                                   then 1 / 2 - real (least (map (cityblock p) outside))
                                   else real (least (map (cityblock p) inside)) - 1 / 2))
                     (positions phi)))"

definition adjacent8 :: "nat \<times> nat \<Rightarrow> nat \<times> nat \<Rightarrow> bool" where
  "adjacent8 p q = (\<bar>int (fst p) - int (fst q)\<bar> \<le> 1 \<and> \<bar>int (snd p) - int (snd q)\<bar> \<le> 1)"

definition grow_component :: "(nat \<times> nat) list \<Rightarrow> (nat \<times> nat) list \<Rightarrow> (nat \<times> nat) list" where
  "grow_component pix members = filter (\<lambda>p. list_ex (adjacent8 p) members) pix"

fun grow_until :: "nat \<Rightarrow> (nat \<times> nat) list \<Rightarrow> (nat \<times> nat) list \<Rightarrow> (nat \<times> nat) list" where
  "grow_until 0 pix members = members"
| "grow_until (Suc fuel) pix members =
     (let grown = grow_component pix members
      in if grown = members then members else grow_until fuel pix grown)"

definition component_of :: "(nat \<times> nat) list \<Rightarrow> nat \<times> nat \<Rightarrow> (nat \<times> nat) list" where
  "component_of pix seed = grow_until (length pix) pix [seed]"

definition make_region :: "nat \<Rightarrow> (nat \<times> nat) list \<Rightarrow> region" where
  "make_region lbl members =
     \<lparr> label = lbl, coords = members,
       bbox = (least (map fst members), least (map snd members),
               Suc (greatest (map fst members)), Suc (greatest (map snd members))) \<rparr>"

fun split_components :: "nat \<Rightarrow> nat \<Rightarrow> (nat \<times> nat) list \<Rightarrow> region list" where
  "split_components 0 lbl pix = []"
| "split_components (Suc fuel) lbl [] = []"
| "split_components (Suc fuel) lbl (p # ps) =
     (let members = component_of (p # ps) p
      in make_region lbl members
         # split_components fuel (Suc lbl) (filter (\<lambda>q. q \<notin> set members) ps))"

definition example_regions :: "mask \<Rightarrow> region list" where
  "example_regions m =
     split_components (length (concat (positions m))) 1
       (filter (pixel_on m) (concat (positions m)))"

text \<open>
  The examples compute with small integers and halves only, which doubles represent
  exactly: on them the rounding changes nothing.
\<close>

definition exact_round :: "real \<Rightarrow> real" where
  "exact_round x = x"

definition example_env :: "(string \<Rightarrow> error + image) \<Rightarrow> env" where
  "example_env files =
     \<lparr> imread = files, is_file = (\<lambda>p. case files p of Inl _ \<Rightarrow> False | Inr _ \<Rightarrow> True),
       float_round = exact_round,
       skfmm_distance = example_distance, skimage_regions = example_regions \<rparr>"

text \<open>Small inputs for the worked examples.\<close>

definition row_mask :: mask where
  "row_mask = [[True, True, False, False]]"

definition dot_mask :: mask where
  "dot_mask = [[False, False, False, False, False],
               [False, False, False, False, False],
               [False, False, True, False, False],
               [False, False, False, False, False],
               [False, False, False, False, False]]"

definition dot_geometry :: geometry where
  "dot_geometry =
     \<lparr> cut_mask = dot_mask,
       cut_contour = [[False, False, False, False, False],
                      [False, False, True, False, False],
                      [False, True, False, True, False],
                      [False, False, True, False, False],
                      [False, False, False, False, False]],
       bleed_mask = [[False, False, False, False, False],
                     [False, False, True, False, False],
                     [False, True, True, True, False],
                     [False, False, True, False, False],
                     [False, False, False, False, False]] \<rparr>"

text \<open>
  A buffer contains a bounding box when it is rectangular and the box lies within its
  rows and columns; a buffer is a square of side \<open>n\<close> when it has \<open>n\<close> rows of \<open>n\<close>
  pixels.
\<close>

definition contains_bbox :: "'a list list \<Rightarrow> nat \<times> nat \<times> nat \<times> nat \<Rightarrow> bool" where
  "contains_bbox matrix bb =
     (case bb of (bbox_x, bbox_y, bbox_width, bbox_height) \<Rightarrow>
        rectangular matrix \<and> bbox_x + bbox_width \<le> ncols matrix
        \<and> bbox_y + bbox_height \<le> length matrix)"

definition square_of :: "nat \<Rightarrow> 'a list list \<Rightarrow> bool" where
  "square_of n m = (length m = n \<and> list_all (\<lambda>row. length row = n) m)"


definition holes_mask :: mask where
  "holes_mask = [[True, False, False, True, True],
                 [True, False, True, False, False]]"

definition tie_mask :: mask where
  "tie_mask = [[True, True, False, True, True],
               [False, False, False, False, False]]"

definition two_blob_mask :: mask where
  "two_blob_mask = [[True, False, False, False],
                    [False, False, True, True]]"

definition two_blob_geometry :: geometry where
  "two_blob_geometry =
     \<lparr> cut_mask = two_blob_mask,
       cut_contour = mask_xor (binary_dilation two_blob_mask) two_blob_mask,
       bleed_mask = two_blob_mask \<rparr>"

definition blank_image :: "nat \<Rightarrow> nat \<Rightarrow> colour" where
  "blank_image h w = replicate h (replicate w [0, 0, 0, 0])"

definition dot_image :: colour where
  "dot_image = map (map (\<lambda>b. if b then [10, 20, 30, 255] else [0, 0, 0, 0])) dot_mask"

definition dot_fitted :: fitted where
  "dot_fitted =
     \<lparr> target_size_inches = 4, target_size_px = 4, fit_bbox = (1, 1, 3, 3),
       fit_color = [[[0, 0, 0, 0], [0, 0, 0, 0], [0, 0, 0, 0], [0, 0, 0, 0]],
                    [[0, 0, 0, 0], [10, 20, 30, 255], [0, 0, 0, 0], [0, 0, 0, 0]],
                    [[0, 0, 0, 0], [0, 0, 0, 0], [0, 0, 0, 0], [0, 0, 0, 0]],
                    [[0, 0, 0, 0], [0, 0, 0, 0], [0, 0, 0, 0], [0, 0, 0, 0]]],
       fit_bleed = [[False, True, False, False],
                    [True, True, True, False],
                    [False, True, False, False],
                    [False, False, False, False]],
       fit_cut = [[False, False, False, False],
                  [False, True, False, False],
                  [False, False, False, False],
                  [False, False, False, False]],
       fit_contour = [[False, True, False, False],
                      [True, False, True, False],
                      [False, True, False, False],
                      [False, False, False, False]] \<rparr>"

definition dot_output :: design_output where
  "dot_output =
     \<lparr> out_name = ''B'', out_dpi = 1, size_inches = 4, size_pixels = 4,
       full_bleed_image =
         [[[255, 255, 255, 0], [0, 0, 0, 0], [255, 255, 255, 0], [255, 255, 255, 0]],
          [[0, 0, 0, 0], [10, 20, 30, 255], [0, 0, 0, 0], [255, 255, 255, 0]],
          [[255, 255, 255, 0], [0, 0, 0, 0], [255, 255, 255, 0], [255, 255, 255, 0]],
          [[255, 255, 255, 0], [255, 255, 255, 0], [255, 255, 255, 0], [255, 255, 255, 0]]],
       cut_mask_image =
         [[[255, 255, 255, 0], [255, 255, 255, 0], [255, 255, 255, 0], [255, 255, 255, 0]],
          [[255, 255, 255, 0], [0, 0, 0, 255], [255, 255, 255, 0], [255, 255, 255, 0]],
          [[255, 255, 255, 0], [255, 255, 255, 0], [255, 255, 255, 0], [255, 255, 255, 0]],
          [[255, 255, 255, 0], [255, 255, 255, 0], [255, 255, 255, 0], [255, 255, 255, 0]]],
       preview =
         [[[128, 128, 128, 255], [0, 0, 0, 255], [128, 128, 128, 255], [128, 128, 128, 255]],
          [[0, 0, 0, 255], [10, 20, 30, 255], [0, 0, 0, 255], [128, 128, 128, 255]],
          [[128, 128, 128, 255], [0, 0, 0, 255], [128, 128, 128, 255], [128, 128, 128, 255]],
          [[128, 128, 128, 255], [128, 128, 128, 255], [128, 128, 128, 255],
           [128, 128, 128, 255]]] \<rparr>"

text \<open>
  An art mask with two separate shapes, a single pixel to the left and two pixels to
  the right, and the masks derived from it.
\<close>

definition pair_mask :: mask where
  "pair_mask = [[False, False, False, False, False, False, False, False, False],
                [False, False, False, False, False, False, False, False, False],
                [False, False, True, False, False, False, True, True, False],
                [False, False, False, False, False, False, False, False, False],
                [False, False, False, False, False, False, False, False, False]]"

definition pair_image :: colour where
  "pair_image = map (map (\<lambda>b. if b then [10, 20, 30, 255] else [0, 0, 0, 0])) pair_mask"

definition pair_geometry :: geometry where
  "pair_geometry =
     \<lparr> cut_mask = pair_mask,
       cut_contour = [[False, False, False, False, False, False, False, False, False],
                      [False, False, True, False, False, False, True, True, False],
                      [False, True, False, True, False, True, False, False, True],
                      [False, False, True, False, False, False, True, True, False],
                      [False, False, False, False, False, False, False, False, False]],
       bleed_mask = [[False, False, False, False, False, False, False, False, False],
                     [False, False, True, False, False, False, True, True, False],
                     [False, True, True, True, False, True, True, True, True],
                     [False, False, True, False, False, False, True, True, False],
                     [False, False, False, False, False, False, False, False, False]] \<rparr>"

text \<open>
  A directory holding the art of the designs \<open>B\<close> and \<open>T\<close> (and no art for \<open>A\<close>), and
  the settings of the examples: design \<open>B\<close> is 5 pixels and 5 inches wide, design \<open>T\<close>
  9 pixels and 9 inches, so both have 1 pixel per inch.
\<close>

definition example_files :: "string \<Rightarrow> error + image" where
  "example_files p =
     (if p = ''designs/B/B_art.png'' then Inr (Colour dot_image)
      else if p = ''designs/T/T_art.png'' then Inr (Colour pair_image)
      else Inl OSError)"

definition example_params :: params where
  "example_params =
     \<lparr> alpha_threshold = 100, thickness_inches = 1 / 2, bleed_thickness_inches = 1,
       min_corner_radius_inches = 1 / 2, sizes = [1, 2, 3, 4] \<rparr>"

definition design_A :: "string \<times> (string \<rightharpoonup> yaml)" where
  "design_A = (''A'', [''width'' \<mapsto> Num 5])"

definition design_B :: "string \<times> (string \<rightharpoonup> yaml)" where
  "design_B = (''B'', [''width'' \<mapsto> Num 5])"

definition design_T :: "string \<times> (string \<rightharpoonup> yaml)" where
  "design_T = (''T'', [''width'' \<mapsto> Num 9])"

definition design_B_no_width :: "string \<times> (string \<rightharpoonup> yaml)" where
  "design_B_no_width = (''B'', Map.empty)"

section \<open>Properties\<close>

subsection \<open>Sequencing\<close>

lemma bind_err_Inl [simp]: "bind_err (Inl e) f = Inl e"
  by (simp add: bind_err_def)

lemma bind_err_Inr [simp]: "bind_err (Inr v) f = f v"
  by (simp add: bind_err_def)

lemma bind_err_eq_Inr: "bind_err x f = Inr y \<longleftrightarrow> (\<exists>v. x = Inr v \<and> f v = Inr y)"
  by (cases x) simp_all

subsection \<open>Expansion\<close>

lemma map_eq_of_list_all2:
  "list_all2 R xs ys \<Longrightarrow> (\<And>x y. R x y \<Longrightarrow> g y = x) \<Longrightarrow> map g ys = xs"
  by (induction rule: list_all2_induct) auto

lemma list_all2_map_right:
  "list_all2 R xs ys \<Longrightarrow> (\<And>x y. R x y \<Longrightarrow> Q x (g y)) \<Longrightarrow> list_all2 Q xs (map g ys)"
  by (induction rule: list_all2_induct) auto

lemma sign_preserved_rows:
  "sign_preserved (phi_of m) sd \<longleftrightarrow>
   list_all2 (list_all2 (\<lambda>b d. if b then d < 0 else 0 < d)) m sd"
proof -
  have pt: "(\<lambda>b d. ((if b then - (1 / 2) else (1 / 2 :: real)) < 0 \<and> d < 0)
                  \<or> (0 < (if b then - (1 / 2) else (1 / 2 :: real)) \<and> 0 < d))
            = (\<lambda>b (d::real). if b then d < 0 else 0 < d)"
    by (intro ext) auto
  show ?thesis
    by (simp add: sign_preserved_def phi_of_def list_all2_map1 pt)
qed

lemma threshold_zero:
  assumes "sign_preserved (phi_of m) sd"
  shows "map (map (\<lambda>d. d \<le> 0)) sd = m"
proof -
  have rows: "list_all2 (list_all2 (\<lambda>b d. if b then d < 0 else 0 < d)) m sd"
    using assms by (simp add: sign_preserved_rows)
  have row: "map (\<lambda>d. d \<le> 0) ds = row"
    if "list_all2 (\<lambda>b d. if b then d < 0 else 0 < d) row ds" for row and ds :: "real list"
    using that by (rule map_eq_of_list_all2) (auto split: if_splits)
  show ?thesis using rows by (rule map_eq_of_list_all2) (rule row)
qed

lemma threshold_nonneg:
  assumes "0 \<le> t" and "sign_preserved (phi_of m) sd"
  shows "mask_subset m (map (map (\<lambda>d. d \<le> t)) sd)"
proof -
  have rows: "list_all2 (list_all2 (\<lambda>b d. if b then d < 0 else 0 < d)) m sd"
    using assms(2) by (simp add: sign_preserved_rows)
  have row: "list_all2 (\<lambda>x y. x \<longrightarrow> y) row (map (\<lambda>d. d \<le> t) ds)"
    if "list_all2 (\<lambda>b d. if b then d < 0 else 0 < d) row ds" for row and ds :: "real list"
    using that by (rule list_all2_map_right) (use assms(1) in \<open>auto split: if_splits\<close>)
  show ?thesis unfolding mask_subset_def
    using rows by (rule list_all2_map_right) (rule row)
qed

lemma threshold_mono:
  "d1 \<le> d2 \<Longrightarrow>
   mask_subset (map (map (\<lambda>d. d \<le> d1)) sd) (map (map (\<lambda>d. d \<le> (d2::real))) sd)"
  unfolding mask_subset_def
  by (auto simp: list_all2_map1 list_all2_map2 intro!: list_all2_refl)


lemma positions_phi_of: "positions (phi_of m) = positions m"
  by (simp add: positions_def phi_of_def cong: map_cong)

lemma set_positions:
  "set (concat (positions m)) = {(r, c). r < length m \<and> c < length (m ! r)}"
  by (force simp: positions_def)

lemma phi_of_nth:
  "r < length m \<Longrightarrow> c < length (m ! r) \<Longrightarrow>
   phi_of m ! r ! c = (if m ! r ! c then - (1 / 2) else 1 / 2)"
  by (simp add: phi_of_def)

lemma least_ge_one: "xs \<noteq> [] \<Longrightarrow> \<forall>x\<in>set xs. 1 \<le> x \<Longrightarrow> 1 \<le> least xs"
  by (induction xs rule: least.induct) auto

lemma cityblock_ge_one: "p \<noteq> q \<Longrightarrow> 1 \<le> cityblock p q"
  by (cases p; cases q) (auto simp: cityblock_def)

lemma has_boundary_on:
  "has_boundary m \<Longrightarrow> \<exists>r c. r < length m \<and> c < length (m ! r) \<and> m ! r ! c"
  unfolding has_boundary_def list_ex_iff by (metis in_set_conv_nth)

lemma has_boundary_off:
  "has_boundary m \<Longrightarrow> \<exists>r c. r < length m \<and> c < length (m ! r) \<and> \<not> m ! r ! c"
  unfolding has_boundary_def list_ex_iff by (metis in_set_conv_nth)

lemma list_all2_positions:
  assumes "\<And>r c. r < length m \<Longrightarrow> c < length (m ! r) \<Longrightarrow> P (m ! r ! c) (f (r, c))"
  shows "list_all2 (list_all2 P) m (map (map f) (positions m))"
  unfolding list_all2_conv_all_nth positions_def using assms by simp

text \<open>
  The reference solver meets the library's contract: on every mask with a boundary it
  returns a field that is negative inside the mask and positive outside.
\<close>

lemma example_distance_returns:
  assumes "has_boundary m"
  shows "\<exists>sd. example_distance (phi_of m) = Inr sd \<and> sign_preserved (phi_of m) sd"
proof -
  let ?phi = "phi_of m"
  let ?inside = "filter (\<lambda>p. ?phi ! fst p ! snd p < 0) (concat (positions m))"
  let ?outside = "filter (\<lambda>p. 0 < ?phi ! fst p ! snd p) (concat (positions m))"
  let ?f = "\<lambda>p. if ?phi ! fst p ! snd p < 0
                 then 1 / 2 - real (least (map (cityblock p) ?outside))
                 else real (least (map (cityblock p) ?inside)) - 1 / 2"
  have in_set: "set ?inside = {(r, c). r < length m \<and> c < length (m ! r) \<and> m ! r ! c}"
    unfolding set_filter set_positions by (auto simp: phi_of_nth split: if_splits)
  have out_set: "set ?outside = {(r, c). r < length m \<and> c < length (m ! r) \<and> \<not> m ! r ! c}"
    unfolding set_filter set_positions by (auto simp: phi_of_nth split: if_splits)
  have in_ne: "?inside \<noteq> []"
    using has_boundary_on [OF assms] in_set
    by (metis (mono_tags, lifting) empty_iff empty_set mem_Collect_eq case_prodI)
  have out_ne: "?outside \<noteq> []"
    using has_boundary_off [OF assms] out_set
    by (metis (mono_tags, lifting) empty_iff empty_set mem_Collect_eq case_prodI)
  have res: "example_distance ?phi = Inr (map (map ?f) (positions m))"
    using in_ne out_ne by (simp add: example_distance_def positions_phi_of Let_def)
  have sign: "if m ! r ! c then ?f (r, c) < 0 else 0 < ?f (r, c)"
    if rc: "r < length m" "c < length (m ! r)" for r c
  proof (cases "m ! r ! c")
    case True
    then have notin: "(r, c) \<notin> set ?outside" using out_set by auto
    have "1 \<le> cityblock (r, c) q" if "q \<in> set ?outside" for q
      by (rule cityblock_ge_one) (use that notin in blast)
    then have "\<forall>x\<in>set (map (cityblock (r, c)) ?outside). 1 \<le> x"
      unfolding set_map by blast
    then have "1 \<le> least (map (cityblock (r, c)) ?outside)"
      using out_ne by (intro least_ge_one) simp_all
    then show ?thesis using True rc by (simp add: phi_of_nth)
  next
    case False
    then have notin: "(r, c) \<notin> set ?inside" using in_set by auto
    have "1 \<le> cityblock (r, c) q" if "q \<in> set ?inside" for q
      by (rule cityblock_ge_one) (use that notin in blast)
    then have "\<forall>x\<in>set (map (cityblock (r, c)) ?inside). 1 \<le> x"
      unfolding set_map by blast
    then have "1 \<le> least (map (cityblock (r, c)) ?inside)"
      using in_ne by (intro least_ge_one) simp_all
    then show ?thesis using False rc by (simp add: phi_of_nth)
  qed
  have "list_all2 (list_all2 (\<lambda>b d. if b then d < 0 else 0 < d)) m (map (map ?f) (positions m))"
    by (rule list_all2_positions) (rule sign)
  then have "sign_preserved ?phi (map (map ?f) (positions m))"
    by (simp add: sign_preserved_rows)
  with res show ?thesis by blast
qed

lemma example_distance_contract: "returns_signed_distance example_distance"
  unfolding returns_signed_distance_def using example_distance_returns by blast

text \<open>
  C7, as the code has it.  For every binary mask with at least one pixel on and at least
  one pixel off, expanding by distance 0 is the identity: \<open>expand_edge\<close> at thickness 0
  returns a mask equal to the input mask.  (The solver returns, on every such mask, a
  field that is negative inside the mask and positive outside.)
\<close>

theorem expand_edge_zero_identity:
  assumes "returns_signed_distance solver" and "has_boundary m"
  shows "expand_edge solver m 0 = Inr m"
proof -
  from assms obtain sd where
    sd: "solver (phi_of m) = Inr sd" and sp: "sign_preserved (phi_of m) sd"
    unfolding returns_signed_distance_def by blast
  from sp have "map (map (\<lambda>d. d \<le> 0)) sd = m" by (rule threshold_zero)
  then show ?thesis using sd by (simp add: expand_edge_def)
qed

theorem expand_edge_zero_identity_witness:
  "returns_signed_distance example_distance \<and> has_boundary row_mask
   \<and> expand_edge example_distance row_mask 0 = Inr row_mask"
proof -
  have b: "has_boundary row_mask" by code_simp
  have "expand_edge example_distance row_mask 0 = Inr row_mask"
    by (rule expand_edge_zero_identity [OF example_distance_contract b])
  with example_distance_contract b show ?thesis by simp
qed

text \<open>
  C7 as stated fails on a non-empty mask with every pixel on: the field built from it
  has no zero contour, the solver rejects it, and \<open>expand_edge\<close> raises instead of
  returning the mask.
\<close>

theorem expand_edge_zero_all_on_counterexample:
  "list_ex (list_ex (\<lambda>b. b)) [[True]]
   \<and> expand_edge example_distance [[True]] 0 = Inl ValueError"
  by code_simp

text \<open>
  C8.  Expansion is monotone in the distance: for \<open>d1 < d2\<close>, when the expansion by
  \<open>d1\<close> returns a mask, the expansion by \<open>d2\<close> returns a mask of the same shape that
  contains every pixel of the first.
\<close>

theorem expand_edge_monotone:
  assumes "d1 < d2" and "expand_edge solver m d1 = Inr a"
  shows "\<exists>b. expand_edge solver m d2 = Inr b \<and> mask_subset a b"
proof (cases "solver (phi_of m)")
  case (Inl e)
  then show ?thesis using assms(2) by (simp add: expand_edge_def)
next
  case (Inr sd)
  then have a: "a = map (map (\<lambda>d. d \<le> d1)) sd"
    using assms(2) by (simp add: expand_edge_def)
  have "mask_subset (map (map (\<lambda>d. d \<le> d1)) sd) (map (map (\<lambda>d. d \<le> d2)) sd)"
    using assms(1) by (intro threshold_mono) simp
  then show ?thesis using Inr a by (simp add: expand_edge_def)
qed

theorem expand_edge_monotone_witness:
  "(0 :: real) < 1
   \<and> expand_edge example_distance row_mask 0 = Inr [[True, True, False, False]]
   \<and> expand_edge example_distance row_mask 1 = Inr [[True, True, True, False]]
   \<and> mask_subset [[True, True, False, False]] [[True, True, True, False]]"
proof -
  have lt: "(0 :: real) < 1" by simp
  have e0: "expand_edge example_distance row_mask 0 = Inr [[True, True, False, False]]"
    by code_simp
  have e1: "expand_edge example_distance row_mask 1 = Inr [[True, True, True, False]]"
    by code_simp
  from expand_edge_monotone [OF lt e0]
  have "mask_subset [[True, True, False, False]] [[True, True, True, False]]"
    unfolding e1 by simp
  with lt e0 e1 show ?thesis by simp
qed

subsection \<open>Bleed containment\<close>

text \<open>
  C6.  For every design whose cut geometry is computed, with a non-negative bleed
  thickness (in pixels), \<open>cut_mask\<close> is a subset of \<open>bleed_mask\<close>: every pixel on in the
  cut mask is on in the bleed mask.  The solver is assumed to return, for the cut mask,
  a field that is negative inside the mask and positive outside.
\<close>

theorem cut_mask_subset_bleed_mask:
  assumes "cut_geometry rnd solver lr art_mask thickness radius bleed_thickness = Inr g"
    and "0 \<le> bleed_thickness"
    and "signed_distance_contract solver (phi_of (cut_mask g))"
  shows "mask_subset (cut_mask g) (bleed_mask g)"
proof -
  from assms(1) obtain shrunk bleed where
    bleed: "expand_edge solver (invert shrunk) bleed_thickness = Inr bleed"
    and g: "g = \<lparr> cut_mask = invert shrunk,
                  cut_contour = mask_xor (binary_dilation (invert shrunk)) (invert shrunk),
                  bleed_mask = bleed \<rparr>"
    by (auto simp: cut_geometry_def bind_err_eq_Inr)
  from bleed obtain sd where
    sd: "solver (phi_of (invert shrunk)) = Inr sd"
    and b: "bleed = map (map (\<lambda>d. d \<le> bleed_thickness)) sd"
    by (auto simp: expand_edge_def split: sum.splits)
  have "sign_preserved (phi_of (invert shrunk)) sd"
    using assms(3) sd g by (simp add: signed_distance_contract_def)
  with assms(2) have "mask_subset (invert shrunk) (map (map (\<lambda>d. d \<le> bleed_thickness)) sd)"
    by (rule threshold_nonneg)
  then show ?thesis using g b by simp
qed

theorem cut_mask_subset_bleed_mask_witness:
  "cut_geometry exact_round example_distance example_regions dot_mask (1 / 2) (1 / 2) 1 = Inr dot_geometry
   \<and> (0 :: real) \<le> 1
   \<and> signed_distance_contract example_distance (phi_of (cut_mask dot_geometry))
   \<and> mask_subset (cut_mask dot_geometry) (bleed_mask dot_geometry)"
proof -
  have g: "cut_geometry exact_round example_distance example_regions dot_mask (1 / 2) (1 / 2) 1
           = Inr dot_geometry"
    by code_simp
  have nn: "(0 :: real) \<le> 1" by simp
  have c: "signed_distance_contract example_distance (phi_of (cut_mask dot_geometry))"
    by code_simp
  have "mask_subset (cut_mask dot_geometry) (bleed_mask dot_geometry)"
    by (rule cut_mask_subset_bleed_mask [OF g nn c])
  with g nn c show ?thesis by simp
qed

subsection \<open>Size selection\<close>

lemma first_greater_Inr:
  "sorted ys \<Longrightarrow>
   first_greater sz ys = Inr r \<longleftrightarrow> r \<in> set ys \<and> sz < r \<and> (\<forall>y\<in>set ys. sz < y \<longrightarrow> r \<le> y)"
proof (induction ys)
  case Nil
  then show ?case by simp
next
  case (Cons a ys)
  then have srt: "sorted ys" and le: "\<forall>y\<in>set ys. a \<le> y" by auto
  show ?case
  proof (cases "sz < a")
    case True
    then show ?thesis using le by auto
  next
    case False
    then show ?thesis using Cons.IH [OF srt] le by auto
  qed
qed

lemma first_greater_Inl:
  "first_greater sz ys = Inl e \<longleftrightarrow> e = ValueError \<and> (\<forall>y\<in>set ys. \<not> sz < y)"
  by (induction ys) auto

text \<open>
  C3.  For every size and every size list, \<open>find_smallest_size\<close> returns an entry \<open>r\<close>
  exactly when \<open>r\<close> is the least entry of the list strictly greater than the size (so an
  entry equal to the size is never selected), and it raises the sizing error
  (\<open>ValueError\<close>, the only error it can raise) exactly when no entry is strictly greater.
  With the catalog 1, 2, 3, 4 it selects 3 for size 2.5 and raises for size 4.
\<close>

theorem find_smallest_size_strictly_greater:
  "(find_smallest_size sz xs = Inr r \<longleftrightarrow>
      r \<in> set xs \<and> sz < r \<and> (\<forall>y\<in>set xs. sz < y \<longrightarrow> r \<le> y))
   \<and> (find_smallest_size sz xs = Inl e \<longleftrightarrow> e = ValueError \<and> (\<forall>y\<in>set xs. \<not> sz < y))
   \<and> find_smallest_size (5 / 2) [1, 2, 3, 4] = Inr 3
   \<and> find_smallest_size 4 [1, 2, 3, 4] = Inl ValueError"
proof -
  have a: "find_smallest_size sz xs = Inr r \<longleftrightarrow>
      r \<in> set xs \<and> sz < r \<and> (\<forall>y\<in>set xs. sz < y \<longrightarrow> r \<le> y)"
    using first_greater_Inr [of "sort xs" sz r] by (simp add: find_smallest_size_def)
  have b: "find_smallest_size sz xs = Inl e \<longleftrightarrow> e = ValueError \<and> (\<forall>y\<in>set xs. \<not> sz < y)"
    using first_greater_Inl [of sz "sort xs" e] by (simp add: find_smallest_size_def)
  have c: "find_smallest_size (5 / 2) [1, 2, 3, 4] = Inr 3"
    by (simp add: find_smallest_size_def)
  have d: "find_smallest_size 4 [1, 2, 3, 4] = Inl ValueError"
    by (simp add: find_smallest_size_def)
  show ?thesis using a b c d by blast
qed

theorem find_smallest_size_strictly_greater_witness:
  "find_smallest_size 2 [3, 1, 2] = Inr 3 \<and> find_smallest_size 3 [3, 1, 2] = Inl ValueError"
proof -
  have "find_smallest_size 2 [3, 1, 2] = Inr 3"
    using find_smallest_size_strictly_greater [of 2 "[3, 1, 2]" 3 ValueError] by simp
  moreover have "find_smallest_size 3 [3, 1, 2] = Inl ValueError"
    using find_smallest_size_strictly_greater [of 3 "[3, 1, 2]" 3 ValueError] by simp
  ultimately show ?thesis by simp
qed


subsection \<open>Hole removal\<close>

lemma pixel_on_clear_pixel:
  "pixel_on (clear_pixel m q) p \<longleftrightarrow> pixel_on m p \<and> p \<noteq> q"
proof (cases p, cases q)
  fix r c r' c' assume p: "p = (r, c)" and q: "q = (r', c')"
  show ?thesis
  proof (cases "r < length m")
    case False
    then show ?thesis by (simp add: p q pixel_on_def clear_pixel_def)
  next
    case True
    then show ?thesis
      by (cases "r = r'"; cases "c = c'")
         (auto simp: p q pixel_on_def clear_pixel_def nth_list_update)
  qed
qed

lemma length_row_clear_pixel:
  "length (m[r' := (m ! r')[c := v]] ! r) = length (m ! r)"
  by (cases "r = r'"; cases "r' < length m") (simp_all add: list_update_beyond)

lemma in_bounds_clear_pixel: "in_bounds (clear_pixel m q) p = in_bounds m p"
  by (cases p; cases q) (simp add: in_bounds_def clear_pixel_def length_row_clear_pixel)

lemma lengths_clear_pixel: "map length (clear_pixel m q) = map length m"
  by (cases q) (auto simp: clear_pixel_def length_row_clear_pixel intro!: nth_equalityI)

lemma pixel_on_foldl_clear:
  "pixel_on (foldl clear_pixel m cs) p \<longleftrightarrow> pixel_on m p \<and> p \<notin> set cs"
  by (induction cs arbitrary: m) (auto simp: pixel_on_clear_pixel)

lemma in_bounds_foldl_clear: "in_bounds (foldl clear_pixel m cs) p = in_bounds m p"
  by (induction cs arbitrary: m) (auto simp: in_bounds_clear_pixel)

lemma lengths_foldl_clear: "map length (foldl clear_pixel m cs) = map length m"
  by (induction cs arbitrary: m) (auto simp: lengths_clear_pixel)

lemma clear_regions_result:
  assumes "\<forall>r\<in>set rs. \<forall>p\<in>set (coords r). in_bounds m p"
  shows "\<exists>m'. clear_regions m rs = Inr m'
      \<and> (\<forall>p. pixel_on m' p \<longleftrightarrow> pixel_on m p \<and> (\<forall>r\<in>set rs. p \<notin> set (coords r)))
      \<and> map length m' = map length m"
  using assms
proof (induction rs arbitrary: m)
  case Nil
  then show ?case by simp
next
  case (Cons a rs)
  let ?m1 = "foldl clear_pixel m (coords a)"
  have c: "clear_coords m (coords a) = Inr ?m1"
    using Cons.prems by (simp add: clear_coords_def list_all_iff)
  have "\<forall>r\<in>set rs. \<forall>p\<in>set (coords r). in_bounds ?m1 p"
    using Cons.prems by (simp add: in_bounds_foldl_clear)
  from Cons.IH [OF this] obtain m' where
    m': "clear_regions ?m1 rs = Inr m'"
    "\<forall>p. pixel_on m' p \<longleftrightarrow> pixel_on ?m1 p \<and> (\<forall>r\<in>set rs. p \<notin> set (coords r))"
    "map length m' = map length ?m1"
    by blast
  show ?case
    using c m' by (auto simp: pixel_on_foldl_clear lengths_foldl_clear)
qed

lemma pixel_on_in_bounds: "pixel_on m p \<Longrightarrow> in_bounds m p"
  by (cases p) (simp add: pixel_on_def in_bounds_def)

lemma pixel_on_positions: "pixel_on m p \<Longrightarrow> p \<in> set (concat (positions m))"
  by (cases p) (force simp: pixel_on_def positions_def)

lemma regions_partition_on:
  assumes "regions_partition m regions"
  shows "pixel_on m p \<longleftrightarrow> (\<exists>r\<in>set regions. p \<in> set (coords r))"
proof
  assume on: "pixel_on m p"
  have "\<forall>q\<in>set (filter (pixel_on m) (concat (positions m))).
          q \<in> set (concat (map coords regions))"
    using assms by (simp add: regions_partition_def list_all_iff)
  moreover have "p \<in> set (filter (pixel_on m) (concat (positions m)))"
    using on pixel_on_positions [OF on] by simp
  ultimately have "p \<in> set (concat (map coords regions))" by blast
  then show "\<exists>r\<in>set regions. p \<in> set (coords r)" by auto
next
  assume "\<exists>r\<in>set regions. p \<in> set (coords r)"
  then have "p \<in> set (concat (map coords regions))" by auto
  moreover have "\<forall>q\<in>set (concat (map coords regions)). pixel_on m q"
    using assms by (simp add: regions_partition_def list_all_iff)
  ultimately show "pixel_on m p" by blast
qed

lemma hd_sort_key:
  assumes "xs \<noteq> []"
  shows "hd (sort_key f xs) = hd (filter (\<lambda>x. \<forall>y\<in>set xs. f x \<le> f y) xs)"
proof -
  let ?ys = "sort_key f xs"
  from assms have ne: "?ys \<noteq> []" by (metis length_0_conv length_sort)
  then obtain a rest where ys: "?ys = a # rest" by (cases ?ys) auto
  have srt: "sorted (map f ?ys)" by (rule sorted_sort_key)
  have a_in: "a \<in> set xs" using ys by (metis list.set_intros(1) set_sort)
  have amin: "\<forall>y\<in>set xs. f a \<le> f y"
  proof
    fix y assume "y \<in> set xs"
    then have "y \<in> set ?ys" by simp
    then show "f a \<le> f y" using srt ys by auto
  qed
  have "filter (\<lambda>y. f y = f a) ?ys = filter (\<lambda>y. f y = f a) xs"
    by (rule sort_key_stable)
  moreover have "hd (filter (\<lambda>y. f y = f a) ?ys) = a" by (simp add: ys)
  moreover have "filter (\<lambda>y. f y = f a) xs = filter (\<lambda>x. \<forall>y\<in>set xs. f x \<le> f y) xs"
  proof (rule filter_cong [OF refl])
    fix x assume x: "x \<in> set xs"
    show "(f x = f a) = (\<forall>y\<in>set xs. f x \<le> f y)"
      using amin a_in x by (auto intro: antisym)
  qed
  ultimately show ?thesis using ys by simp
qed

lemma hd_sorted_regions:
  assumes "regions \<noteq> []"
  shows "hd (sorted_regions regions) = hd (largest_regions regions)"
proof -
  have "(\<lambda>x. \<forall>y\<in>set regions. - int (num_pixels x) \<le> - int (num_pixels y))
        = (\<lambda>r. list_all (\<lambda>r'. num_pixels r' \<le> num_pixels r) regions)"
    by (auto simp: list_all_iff)
  then show ?thesis
    using hd_sort_key [OF assms, of "\<lambda>x. - int (num_pixels x)"]
    by (simp add: sorted_regions_def largest_regions_def)
qed

lemma largest_regions_nonempty:
  assumes "regions \<noteq> []"
  shows "largest_regions regions \<noteq> []"
proof -
  have "sorted_regions regions \<noteq> []"
    using assms by (metis length_0_conv length_sort sorted_regions_def)
  then obtain a rest where ys: "sorted_regions regions = a # rest"
    by (cases "sorted_regions regions") auto
  have srt: "sorted (map (\<lambda>x. - int (num_pixels x)) (sorted_regions regions))"
    unfolding sorted_regions_def by (rule sorted_sort_key)
  have a_in: "a \<in> set regions"
    using ys by (metis list.set_intros(1) set_sort sorted_regions_def)
  have "\<forall>y\<in>set regions. num_pixels y \<le> num_pixels a"
  proof
    fix y assume "y \<in> set regions"
    then have "y \<in> set (sorted_regions regions)" by (simp add: sorted_regions_def)
    then show "num_pixels y \<le> num_pixels a" using srt ys by auto
  qed
  then have "a \<in> set (largest_regions regions)"
    using a_in by (simp add: largest_regions_def list_all_iff)
  then show ?thesis by auto
qed

lemma partition_disjoint:
  assumes "regions_partition m regions"
    and "r1 \<in> set regions" and "r2 \<in> set regions" and "r1 \<noteq> r2"
  shows "set (coords r1) \<inter> set (coords r2) = {}"
proof -
  have d: "distinct (concat (map coords regions))"
    and ne: "[] \<notin> set (map coords regions)"
    using assms(1) by (auto simp: regions_partition_def list_all_iff)
  from ne have "removeAll [] (map coords regions) = map coords regions"
    by (rule removeAll_id)
  with d have dm: "distinct (map coords regions)"
    and dj: "\<And>ys zs. ys \<in> set (map coords regions) \<Longrightarrow> zs \<in> set (map coords regions)
               \<Longrightarrow> ys \<noteq> zs \<Longrightarrow> set ys \<inter> set zs = {}"
    by (auto simp: distinct_concat_iff)
  from dm have "inj_on coords (set regions)" by (simp add: distinct_map)
  then have "coords r1 \<noteq> coords r2" using assms(2-4) by (auto dest: inj_onD)
  then show ?thesis using dj assms(2,3) by simp
qed

lemma partition_distinct_regions:
  assumes "regions_partition m regions"
  shows "distinct regions"
proof -
  have d: "distinct (concat (map coords regions))"
    and ne: "[] \<notin> set (map coords regions)"
    using assms(1) by (auto simp: regions_partition_def list_all_iff)
  from ne have "removeAll [] (map coords regions) = map coords regions"
    by (rule removeAll_id)
  with d have "distinct (map coords regions)" by (auto simp: distinct_concat_iff)
  then show ?thesis by (simp add: distinct_map)
qed

lemma sorted_regions_head:
  assumes "sorted_regions regions = a # rest"
  shows "a \<in> set regions" and "\<forall>y\<in>set regions. num_pixels y \<le> num_pixels a"
    and "set regions = insert a (set rest)"
proof -
  have s: "set (sorted_regions regions) = set regions" by (simp add: sorted_regions_def)
  show "a \<in> set regions" using s assms by auto
  show "set regions = insert a (set rest)" using s assms by auto
  have srt: "sorted (map (\<lambda>x. - int (num_pixels x)) (sorted_regions regions))"
    unfolding sorted_regions_def by (rule sorted_sort_key)
  show "\<forall>y\<in>set regions. num_pixels y \<le> num_pixels a"
  proof
    fix y assume "y \<in> set regions"
    then have "y \<in> set (sorted_regions regions)" using s by simp
    then show "num_pixels y \<le> num_pixels a" using srt assms by auto
  qed
qed


text \<open>
  C5.  For every mask whose labelling has at least one region (the labelling being a
  partition of the mask's on pixels into regions), the hole removal returns a mask of
  the same shape in which exactly the pixels of one region of greatest pixel count are
  on, and every pixel of every other region is off.
\<close>

theorem remove_holes_keeps_largest:
  assumes part: "regions_partition m (lr m)" and ne: "lr m \<noteq> []"
  shows "\<exists>m' kept. remove_holes lr m = Inr m' \<and> kept \<in> set (lr m)
      \<and> (\<forall>r\<in>set (lr m). num_pixels r \<le> num_pixels kept)
      \<and> (\<forall>p. pixel_on m' p \<longleftrightarrow> p \<in> set (coords kept))
      \<and> (\<forall>r\<in>set (lr m). r \<noteq> kept \<longrightarrow> (\<forall>p\<in>set (coords r). \<not> pixel_on m' p))
      \<and> map length m' = map length m"
proof -
  have "sorted_regions (lr m) \<noteq> []"
    using ne by (metis length_0_conv length_sort sorted_regions_def)
  then obtain kept rest where S: "sorted_regions (lr m) = kept # rest"
    by (cases "sorted_regions (lr m)") auto
  note hd = sorted_regions_head [OF S]
  have "distinct (sorted_regions (lr m))"
    using partition_distinct_regions [OF part] by (simp add: sorted_regions_def)
  then have kept_notin: "kept \<notin> set rest" using S by simp
  have rest_sub: "set rest \<subseteq> set (lr m)" using hd(3) by auto
  have inb: "\<forall>r\<in>set rest. \<forall>p\<in>set (coords r). in_bounds m p"
    using rest_sub regions_partition_on [OF part] pixel_on_in_bounds by blast
  from clear_regions_result [OF inb] obtain m' where
    m': "clear_regions m rest = Inr m'"
    and on: "\<forall>p. pixel_on m' p \<longleftrightarrow> pixel_on m p \<and> (\<forall>r\<in>set rest. p \<notin> set (coords r))"
    and len: "map length m' = map length m"
    by blast
  have rh: "remove_holes lr m = Inr m'"
    using m' S by (simp add: remove_holes_def)
  have disj: "\<forall>r\<in>set rest. set (coords kept) \<inter> set (coords r) = {}"
    using partition_disjoint [OF part hd(1)] rest_sub kept_notin by blast
  have on_kept: "\<forall>p. pixel_on m' p \<longleftrightarrow> p \<in> set (coords kept)"
  proof
    fix p
    have a: "pixel_on m' p \<longleftrightarrow> pixel_on m p \<and> (\<forall>r\<in>set rest. p \<notin> set (coords r))"
      using on by blast
    have b: "pixel_on m p \<longleftrightarrow> p \<in> set (coords kept) \<or> (\<exists>r\<in>set rest. p \<in> set (coords r))"
      using regions_partition_on [OF part, of p] hd(3) by auto
    show "pixel_on m' p \<longleftrightarrow> p \<in> set (coords kept)"
      unfolding a b using disj by blast
  qed
  have others: "\<forall>r\<in>set (lr m). r \<noteq> kept \<longrightarrow> (\<forall>p\<in>set (coords r). \<not> pixel_on m' p)"
  proof (intro ballI impI)
    fix r p assume "r \<in> set (lr m)" "r \<noteq> kept" "p \<in> set (coords r)"
    then have "r \<in> set rest" using hd(3) by auto
    then show "\<not> pixel_on m' p" using on \<open>p \<in> set (coords r)\<close> by blast
  qed
  show ?thesis using rh hd(1,2) on_kept others len by blast
qed


theorem remove_holes_keeps_largest_witness:
  "regions_partition holes_mask (example_regions holes_mask)
   \<and> example_regions holes_mask \<noteq> []
   \<and> remove_holes example_regions holes_mask
       = Inr [[False, False, False, True, True], [False, False, True, False, False]]
   \<and> (\<exists>m' kept. remove_holes example_regions holes_mask = Inr m'
         \<and> kept \<in> set (example_regions holes_mask)
         \<and> (\<forall>r\<in>set (example_regions holes_mask). num_pixels r \<le> num_pixels kept)
         \<and> (\<forall>p. pixel_on m' p \<longleftrightarrow> p \<in> set (coords kept))
         \<and> (\<forall>r\<in>set (example_regions holes_mask).
               r \<noteq> kept \<longrightarrow> (\<forall>p\<in>set (coords r). \<not> pixel_on m' p))
         \<and> map length m' = map length holes_mask)"
proof -
  have h1: "regions_partition holes_mask (example_regions holes_mask)"
    by code_simp
  have h2: "example_regions holes_mask \<noteq> []"
    by code_simp
  have v: "remove_holes example_regions holes_mask
           = Inr [[False, False, False, True, True], [False, False, True, False, False]]"
    by code_simp
  note remove_holes_keeps_largest [where m = holes_mask and lr = example_regions, OF h1 h2]
  with h1 h2 v show ?thesis by blast
qed

text \<open>
  C10.  The tie-break of the hole removal is fixed: the region kept (the head of the
  stable sort by descending pixel count; every region after the head is cleared) is the
  first region, in the order of the labelling, among those of greatest pixel count; with
  the regions listed in ascending label order it has the lowest label among them.
\<close>

theorem hole_removal_tie_break:
  assumes "lr m \<noteq> []"
  shows "remove_holes lr m = clear_regions m (tl (sorted_regions (lr m)))
     \<and> hd (sorted_regions (lr m)) = hd (largest_regions (lr m))
     \<and> hd (sorted_regions (lr m)) \<in> set (largest_regions (lr m))
     \<and> (sorted_wrt (\<lambda>a b. label a < label b) (lr m) \<longrightarrow>
          (\<forall>r\<in>set (largest_regions (lr m)). label (hd (sorted_regions (lr m))) \<le> label r))"
proof -
  have h: "hd (sorted_regions (lr m)) = hd (largest_regions (lr m))"
    by (rule hd_sorted_regions [OF assms])
  have n: "largest_regions (lr m) \<noteq> []" by (rule largest_regions_nonempty [OF assms])
  then obtain a rest where L: "largest_regions (lr m) = a # rest"
    by (cases "largest_regions (lr m)") auto
  have lab: "\<forall>r\<in>set (largest_regions (lr m)). label a \<le> label r"
    if "sorted_wrt (\<lambda>a b. label a < label b) (lr m)"
  proof -
    from that have "sorted_wrt (\<lambda>a b. label a < label b) (largest_regions (lr m))"
      unfolding largest_regions_def by (rule sorted_wrt_filter)
    then show ?thesis using L by auto
  qed
  have t: "remove_holes lr m = clear_regions m (tl (sorted_regions (lr m)))"
    by (simp add: remove_holes_def drop_Suc)
  show ?thesis using h L lab t by auto
qed

theorem hole_removal_tie_break_witness:
  "example_regions tie_mask \<noteq> []
   \<and> map label (largest_regions (example_regions tie_mask)) = [1, 2]
   \<and> hd (sorted_regions (example_regions tie_mask))
       = hd (largest_regions (example_regions tie_mask))
   \<and> label (hd (sorted_regions (example_regions tie_mask))) = 1
   \<and> remove_holes example_regions tie_mask
       = Inr [[True, True, False, False, False], [False, False, False, False, False]]"
proof -
  have ne: "example_regions tie_mask \<noteq> []"
    by code_simp
  have l: "map label (largest_regions (example_regions tie_mask)) = [1, 2]"
    by code_simp
  have k: "label (hd (sorted_regions (example_regions tie_mask))) = 1"
    by code_simp
  have v: "remove_holes example_regions tie_mask
           = Inr [[True, True, False, False, False], [False, False, False, False, False]]"
    by code_simp
  from hole_removal_tie_break [where lr = example_regions and m = tie_mask, OF ne]
  have "hd (sorted_regions (example_regions tie_mask))
        = hd (largest_regions (example_regions tie_mask))"
    by (rule conjunct1 [OF conjunct2])
  with ne l k v show ?thesis by simp
qed

subsection \<open>Canvas fitting\<close>

lemma adjust_image_size_Inr:
  assumes "contains_bbox matrix (x, y, w, h)" and "int w \<le> t" and "int h \<le> t"
  shows "\<exists>m'. adjust_image_size matrix (x, y, w, h) t pad = Inr m' \<and> square_of (nat t) m'"
proof -
  from assms(1) have rect: "\<forall>row\<in>set matrix. length row = ncols matrix"
    and xw: "x + w \<le> ncols matrix" and yh: "y + h \<le> length matrix"
    by (auto simp: contains_bbox_def rectangular_def list_all_iff)
  let ?px1 = "(t - int w) div 2" and ?py1 = "(t - int h) div 2"
  let ?px2 = "(t - int w) - ?px1" and ?py2 = "(t - int h) - ?py1"
  have nn: "0 \<le> ?px1" "0 \<le> ?px2" "0 \<le> ?py1" "0 \<le> ?py2"
    using assms(2,3) by auto
  have sw: "min w (ncols matrix - x) = w" using xw by simp
  have wsum: "nat ?px1 + w + nat ?px2 = nat t" using nn assms(2) by linarith
  have hsum: "nat ?py1 + h + nat ?py2 = nat t" using nn assms(3) by linarith
  have rows: "length (crop matrix (x, y, w, h)) = h"
    using yh by (simp add: crop_def)
  have each: "\<forall>row\<in>set (crop matrix (x, y, w, h)). length row = w"
  proof
    fix row assume "row \<in> set (crop matrix (x, y, w, h))"
    then obtain r where "r \<in> set matrix" and "row = take w (drop x r)"
      by (auto simp: crop_def dest!: in_set_takeD in_set_dropD)
    then show "length row = w" using rect xw by simp
  qed
  let ?m' = "pad2 (crop matrix (x, y, w, h)) w (nat ?py1, nat ?py2) (nat ?px1, nat ?px2) pad"
  have res: "adjust_image_size matrix (x, y, w, h) t pad = Inr ?m'"
    using nn sw by (simp add: adjust_image_size_def Let_def not_less [symmetric])
  have "length ?m' = nat t"
    using rows hsum by (simp add: pad2_def)
  moreover have "list_all (\<lambda>row. length row = nat t) ?m'"
    using each wsum by (auto simp: pad2_def list_all_iff)
  ultimately show ?thesis using res by (auto simp: square_of_def)
qed

lemma adjust_image_size_square:
  assumes "adjust_image_size matrix bb t pad = Inr m'" and "contains_bbox matrix bb"
  shows "square_of (nat t) m'"
proof -
  obtain x y w h where bb: "bb = (x, y, w, h)" by (cases bb) auto
  have "\<not> ((t - int h) div 2 < 0 \<or> (t - int h) - (t - int h) div 2 < 0
          \<or> (t - int w) div 2 < 0 \<or> (t - int w) - (t - int w) div 2 < 0)"
    using assms(1) unfolding bb adjust_image_size_def Let_def
    by (auto split: if_splits)
  then have "int w \<le> t" "int h \<le> t" by linarith+
  from adjust_image_size_Inr [OF assms(2) [unfolded bb] this, of pad] assms(1)
  show ?thesis by (simp add: bb)
qed

lemma canvas_fit_Inr:
  assumes "canvas_fit rnd lr dpi catalog color g = Inr f"
  shows "\<exists>r0 rest. lr (bleed_mask g) = r0 # rest \<and> fit_bbox f = bbox_xywh r0
     \<and> target_size_px f = py_int (rnd (target_size_inches f * dpi))
     \<and> adjust_image_size color (fit_bbox f) (target_size_px f) (replicate (channels color) 0)
         = Inr (fit_color f)
     \<and> adjust_image_size (bleed_mask g) (fit_bbox f) (target_size_px f) False = Inr (fit_bleed f)
     \<and> adjust_image_size (cut_mask g) (fit_bbox f) (target_size_px f) False = Inr (fit_cut f)
     \<and> adjust_image_size (cut_contour g) (fit_bbox f) (target_size_px f) False
         = Inr (fit_contour f)"
  using assms
  by (auto simp: canvas_fit_def bind_err_eq_Inr bounding_box_def split: list.splits)


text \<open>
  C4.  The claim is that the bounding box used for canvas fitting is that of the largest
  connected component of \<open>bleed_mask\<close>.  The code takes \<^verbatim>\<open>regions[0]\<close> of the
  unsorted labelling, the component met first in scan order.  On a bleed mask with a
  one-pixel component met first and a two-pixel component after it, the box is that of
  the one-pixel component, and the fitted masks hold that pixel only.  In the design
  \<open>T\<close>, whose art has a single pixel to the left and two pixels to the right, the bleed
  mask has a component of 5 pixels and one of 8; the fitting crops to the component of
  5, and the three images written are those of a design with the single pixel alone.
\<close>

theorem bounding_box_skips_largest_component:
  "example_regions two_blob_mask
     = [\<lparr> label = 1, coords = [(0, 0)], bbox = (0, 0, 1, 1) \<rparr>,
        \<lparr> label = 2, coords = [(1, 2), (1, 3)], bbox = (1, 2, 2, 4) \<rparr>]
   \<and> bounding_box (example_regions two_blob_mask) = Inr (0, 0, 1, 1)
   \<and> map bbox_xywh (largest_regions (example_regions two_blob_mask)) = [(2, 1, 2, 1)]
   \<and> canvas_fit exact_round example_regions 1 [1, 2, 3, 4] (blank_image 2 4) two_blob_geometry
       = Inr \<lparr> target_size_inches = 2, target_size_px = 2, fit_bbox = (0, 0, 1, 1),
               fit_color = blank_image 2 2,
               fit_bleed = [[True, False], [False, False]],
               fit_cut = [[True, False], [False, False]],
               fit_contour = [[False, False], [False, False]] \<rparr>
   \<and> cut_geometry exact_round example_distance example_regions pair_mask (1 / 2) (1 / 2) 1
       = Inr pair_geometry
   \<and> map (\<lambda>r. (num_pixels r, bbox_xywh r)) (example_regions (bleed_mask pair_geometry))
       = [(5, (1, 1, 3, 3)), (8, (5, 1, 4, 3))]
   \<and> process_design (example_env example_files) example_params Map.empty ''designs'' design_T
       = Inr (dot_output \<lparr> out_name := ''T'' \<rparr>)"
proof -
  have a: "example_regions two_blob_mask
     = [\<lparr> label = 1, coords = [(0, 0)], bbox = (0, 0, 1, 1) \<rparr>,
        \<lparr> label = 2, coords = [(1, 2), (1, 3)], bbox = (1, 2, 2, 4) \<rparr>]"
    by code_simp
  have b: "bounding_box (example_regions two_blob_mask) = Inr (0, 0, 1, 1)"
    by code_simp
  have c: "map bbox_xywh (largest_regions (example_regions two_blob_mask)) = [(2, 1, 2, 1)]"
    by code_simp
  have d: "canvas_fit exact_round example_regions 1 [1, 2, 3, 4] (blank_image 2 4)
             two_blob_geometry
       = Inr \<lparr> target_size_inches = 2, target_size_px = 2, fit_bbox = (0, 0, 1, 1),
               fit_color = blank_image 2 2,
               fit_bleed = [[True, False], [False, False]],
               fit_cut = [[True, False], [False, False]],
               fit_contour = [[False, False], [False, False]] \<rparr>"
    by code_simp
  have e: "cut_geometry exact_round example_distance example_regions pair_mask (1 / 2) (1 / 2) 1
       = Inr pair_geometry"
    by code_simp
  have f: "map (\<lambda>r. (num_pixels r, bbox_xywh r)) (example_regions (bleed_mask pair_geometry))
       = [(5, (1, 1, 3, 3)), (8, (5, 1, 4, 3))]"
    by code_simp
  have g: "process_design (example_env example_files) example_params Map.empty ''designs''
             design_T
       = Inr (dot_output \<lparr> out_name := ''T'' \<rparr>)"
    by code_simp
  from a b c d e f g show ?thesis by (intro conjI)
qed

text \<open>
  C9, as the code has it.  For every buffer that contains the bounding box (the buffer is
  rectangular and the box lies within it) and whose bounding box is at most
  \<open>target_size_px\<close> wide and high, \<open>adjust_image_size\<close> returns a buffer of exactly
  \<open>target_size_px\<close> by \<open>target_size_px\<close> pixels.  In the canvas fitting,
  \<open>target_size_px\<close> is \<open>int(target_size_inches * dpi)\<close>, computed once for the design, and
  when the four buffers contain the bounding box the four returned buffers are squares
  of that one side.
\<close>

theorem canvas_fit_square_buffers:
  "(contains_bbox matrix (x, y, w, h) \<and> int w \<le> t \<and> int h \<le> t \<longrightarrow>
      (\<exists>m'. adjust_image_size matrix (x, y, w, h) t pad = Inr m' \<and> square_of (nat t) m'))
   \<and> (canvas_fit rnd lr dpi catalog color g = Inr f
       \<and> contains_bbox color (fit_bbox f) \<and> contains_bbox (bleed_mask g) (fit_bbox f)
       \<and> contains_bbox (cut_mask g) (fit_bbox f) \<and> contains_bbox (cut_contour g) (fit_bbox f)
      \<longrightarrow> target_size_px f = py_int (rnd (target_size_inches f * dpi))
          \<and> square_of (nat (target_size_px f)) (fit_color f)
          \<and> square_of (nat (target_size_px f)) (fit_bleed f)
          \<and> square_of (nat (target_size_px f)) (fit_cut f)
          \<and> square_of (nat (target_size_px f)) (fit_contour f))"
proof (intro conjI impI)
  assume "contains_bbox matrix (x, y, w, h) \<and> int w \<le> t \<and> int h \<le> t"
  then show "\<exists>m'. adjust_image_size matrix (x, y, w, h) t pad = Inr m' \<and> square_of (nat t) m'"
    by (intro adjust_image_size_Inr) simp_all
next
  assume a: "canvas_fit rnd lr dpi catalog color g = Inr f
       \<and> contains_bbox color (fit_bbox f) \<and> contains_bbox (bleed_mask g) (fit_bbox f)
       \<and> contains_bbox (cut_mask g) (fit_bbox f) \<and> contains_bbox (cut_contour g) (fit_bbox f)"
  then have f: "canvas_fit rnd lr dpi catalog color g = Inr f" by simp
  from canvas_fit_Inr [OF f] have
    tp: "target_size_px f = py_int (rnd (target_size_inches f * dpi))"
    and ac: "adjust_image_size color (fit_bbox f) (target_size_px f)
               (replicate (channels color) 0) = Inr (fit_color f)"
    and ab: "adjust_image_size (bleed_mask g) (fit_bbox f) (target_size_px f) False
               = Inr (fit_bleed f)"
    and ak: "adjust_image_size (cut_mask g) (fit_bbox f) (target_size_px f) False
               = Inr (fit_cut f)"
    and ao: "adjust_image_size (cut_contour g) (fit_bbox f) (target_size_px f) False
               = Inr (fit_contour f)"
    by blast+
  show "target_size_px f = py_int (rnd (target_size_inches f * dpi))" by (rule tp)
  show "square_of (nat (target_size_px f)) (fit_color f)"
    by (rule adjust_image_size_square [OF ac]) (use a in simp)
  show "square_of (nat (target_size_px f)) (fit_bleed f)"
    by (rule adjust_image_size_square [OF ab]) (use a in simp)
  show "square_of (nat (target_size_px f)) (fit_cut f)"
    by (rule adjust_image_size_square [OF ak]) (use a in simp)
  show "square_of (nat (target_size_px f)) (fit_contour f)"
    by (rule adjust_image_size_square [OF ao]) (use a in simp)
qed

theorem canvas_fit_square_buffers_witness:
  "canvas_fit exact_round example_regions 1 [1, 2, 3, 4] dot_image dot_geometry = Inr dot_fitted
   \<and> contains_bbox dot_image (fit_bbox dot_fitted)
   \<and> contains_bbox (bleed_mask dot_geometry) (fit_bbox dot_fitted)
   \<and> contains_bbox (cut_mask dot_geometry) (fit_bbox dot_fitted)
   \<and> contains_bbox (cut_contour dot_geometry) (fit_bbox dot_fitted)
   \<and> target_size_px dot_fitted = py_int (exact_round (target_size_inches dot_fitted * 1))
   \<and> square_of 4 (fit_color dot_fitted) \<and> square_of 4 (fit_bleed dot_fitted)
   \<and> square_of 4 (fit_cut dot_fitted) \<and> square_of 4 (fit_contour dot_fitted)"
proof -
  have f: "canvas_fit exact_round example_regions 1 [1, 2, 3, 4] dot_image dot_geometry = Inr dot_fitted"
    by code_simp
  have c1: "contains_bbox dot_image (fit_bbox dot_fitted)" by code_simp
  have c2: "contains_bbox (bleed_mask dot_geometry) (fit_bbox dot_fitted)" by code_simp
  have c3: "contains_bbox (cut_mask dot_geometry) (fit_bbox dot_fitted)" by code_simp
  have c4: "contains_bbox (cut_contour dot_geometry) (fit_bbox dot_fitted)" by code_simp
  have px: "nat (target_size_px dot_fitted) = 4" by (simp add: dot_fitted_def)
  have "target_size_px dot_fitted = py_int (exact_round (target_size_inches dot_fitted * 1))
      \<and> square_of (nat (target_size_px dot_fitted)) (fit_color dot_fitted)
      \<and> square_of (nat (target_size_px dot_fitted)) (fit_bleed dot_fitted)
      \<and> square_of (nat (target_size_px dot_fitted)) (fit_cut dot_fitted)
      \<and> square_of (nat (target_size_px dot_fitted)) (fit_contour dot_fitted)"
    by (rule canvas_fit_square_buffers
          [where rnd = exact_round and lr = example_regions and dpi = 1
             and catalog = "[1, 2, 3, 4]"
             and color = dot_image and g = dot_geometry and f = dot_fitted,
           THEN conjunct2, THEN mp])
       (simp only: f c1 c2 c3 c4 simp_thms)
  with f c1 c2 c3 c4 show ?thesis unfolding px by simp
qed

text \<open>
  C9 as stated fails for a buffer that does not contain the bounding box: the crop is
  clamped to the buffer, and with a bounding box as wide and high as the target nothing
  is padded, so a 1 by 1 buffer stays 1 by 1 where the target is 2.  In the canvas
  fitting, a colour image smaller than the masks comes out smaller than they do.
\<close>

theorem adjust_image_size_not_square_counterexample:
  "int 2 \<le> 2
   \<and> adjust_image_size [[True]] (0, 0, 2, 2) 2 False = Inr [[True]]
   \<and> \<not> square_of 2 [[True]]
   \<and> map_sum id (\<lambda>f. (shape2 (fit_color f), shape2 (fit_bleed f)))
        (canvas_fit exact_round example_regions 1 [1, 2, 3, 4] (blank_image 1 1) dot_geometry)
       = Inr ((1, 1), (4, 4))"
proof -
  have a: "adjust_image_size [[True]] (0, 0, 2, 2) 2 False = Inr [[True]]"
    by (simp add: adjust_image_size_def crop_def pad2_def ncols_def)
  have b: "\<not> square_of 2 [[True]]"
    by (simp add: square_of_def)
  have c: "map_sum id (\<lambda>f. (shape2 (fit_color f), shape2 (fit_bleed f)))
        (canvas_fit exact_round example_regions 1 [1, 2, 3, 4] (blank_image 1 1) dot_geometry)
       = Inr ((1, 1), (4, 4))"
    by code_simp
  from a b c show ?thesis by simp
qed

subsection \<open>The driver loop\<close>

lemma main_loop_append:
  "main_loop e ps settings root_dir names (xs @ ys) =
     (if failure (main_loop e ps settings root_dir names xs) = None
      then \<lparr> started = started (main_loop e ps settings root_dir names xs)
                        @ started (main_loop e ps settings root_dir names ys),
             written = written (main_loop e ps settings root_dir names xs)
                        @ written (main_loop e ps settings root_dir names ys),
             failure = failure (main_loop e ps settings root_dir names ys) \<rparr>
      else main_loop e ps settings root_dir names xs)"
  by (induction xs) (auto simp: Let_def split: sum.splits)


lemma example_run_B:
  "main_loop (example_env example_files) example_params Map.empty ''designs'' [] [design_B]
   = \<lparr> started = [''B''], written = [dot_output], failure = None \<rparr>"
  by code_simp

lemma example_fail_A:
  "process_design (example_env example_files) example_params Map.empty ''designs'' design_A
   = Inl OSError"
  by code_simp

text \<open>
  C1, as the code has it.  The loop has no handler: an exception raised while one
  selected design is processed ends the run at that design.  The designs before it have
  been processed and their outputs written; the failing design and every design after
  it leave no output, and the run ends with that exception.
\<close>

theorem main_loop_stops_at_first_failure:
  assumes "names = [] \<or> fst design \<in> set names"
    and "process_design e ps settings root_dir design = Inl err"
    and "failure (main_loop e ps settings root_dir names before) = None"
  shows "main_loop e ps settings root_dir names (before @ design # rest)
       = \<lparr> started = started (main_loop e ps settings root_dir names before) @ [fst design],
           written = written (main_loop e ps settings root_dir names before),
           failure = Some err \<rparr>"
proof -
  have "main_loop e ps settings root_dir names (design # rest)
        = \<lparr> started = [fst design], written = [], failure = Some err \<rparr>"
    using assms(1,2) by auto
  then show ?thesis using assms(3) by (simp add: main_loop_append)
qed

theorem main_loop_stops_at_first_failure_witness:
  "main_loop (example_env example_files) example_params Map.empty ''designs'' []
     ([design_B] @ design_A # [design_B])
   = \<lparr> started = [''B'', ''A''], written = [dot_output], failure = Some OSError \<rparr>"
proof -
  have h1: "([] :: string list) = [] \<or> fst design_A \<in> set []" by simp
  have h3: "failure (main_loop (example_env example_files) example_params Map.empty
               ''designs'' [] [design_B]) = None"
    unfolding example_run_B by simp
  have fa: "fst design_A = ''A''" by (simp add: design_A_def)
  show ?thesis
    unfolding main_loop_stops_at_first_failure [OF h1 example_fail_A h3, of "[design_B]"]
    unfolding example_run_B fa by simp
qed

text \<open>
  C1 as stated fails: in a run over the designs \<open>A\<close> and \<open>B\<close>, where the art of \<open>A\<close>
  cannot be loaded, the run ends with that error when \<open>A\<close> is processed; \<open>B\<close>, which is
  processed without error in a run of its own, is never started.
\<close>

theorem failure_ends_run_counterexample:
  "main_loop (example_env example_files) example_params Map.empty ''designs'' []
     [design_A, design_B]
   = \<lparr> started = [''A''], written = [], failure = Some OSError \<rparr>
   \<and> main_loop (example_env example_files) example_params Map.empty ''designs'' [] [design_B]
   = \<lparr> started = [''B''], written = [dot_output], failure = None \<rparr>"
proof -
  have "main_loop (example_env example_files) example_params Map.empty ''designs'' []
          [design_A, design_B]
        = \<lparr> started = [''A''], written = [], failure = Some OSError \<rparr>"
    using example_fail_A by (simp add: design_A_def)
  with example_run_B show ?thesis by (rule conjI [rotated])
qed

subsection \<open>Missing width\<close>

lemma compute_dpi_None: "compute_dpi rnd w None = Inl TypeError"
  by (simp add: compute_dpi_def)


text \<open>
  C2.  The claim says that a design with no physical width is computed at a default of
  300 pixels per inch.  The code does not do so: with no \<open>width\<close> key in the merged
  details, the design is never processed to the end, and once both images are loaded the
  division of the pixel width by \<open>None\<close> raises TypeError.
\<close>

theorem missing_width_raises:
  assumes "(settings ++ details) ''width'' = None"
  shows "(\<forall>out. process_design e ps settings root_dir (name, details) \<noteq> Inr out)
     \<and> (\<forall>a mk c mi. resolve_paths e root_dir name (settings ++ details) = Inr (a, mk)
           \<and> imread e a = Inr (Colour c) \<and> imread e mk = Inr mi
         \<longrightarrow> process_design e ps settings root_dir (name, details) = Inl TypeError)"
proof -
  have w: "compute_dpi rnd n ((settings ++ details) ''width'') = Inl TypeError" for rnd n
    by (simp only: assms compute_dpi_None)
  show ?thesis
    by (auto simp: process_design_def Let_def bind_err_eq_Inr w colour_of_def
             simp del: map_add_None)
qed

theorem missing_width_raises_witness:
  "((Map.empty :: string \<rightharpoonup> yaml) ++ snd design_B_no_width) ''width'' = None
   \<and> process_design (example_env example_files) example_params Map.empty ''designs''
       design_B_no_width = Inl TypeError"
proof -
  have h: "((Map.empty :: string \<rightharpoonup> yaml) ++ Map.empty) ''width'' = None" by simp
  have p: "resolve_paths (example_env example_files) ''designs'' ''B'' (Map.empty ++ Map.empty)
           = Inr (''designs/B/B_art.png'', ''designs/B/B_art.png'')"
    by code_simp
  have i: "imread (example_env example_files) ''designs/B/B_art.png'' = Inr (Colour dot_image)"
    by (simp add: example_env_def example_files_def)
  from missing_width_raises
    [OF h, where e = "example_env example_files" and ps = example_params
       and root_dir = "''designs''" and name = "''B''"]
  have "process_design (example_env example_files) example_params Map.empty ''designs''
          (''B'', Map.empty) = Inl TypeError"
    using p i by blast
  with h show ?thesis by (simp add: design_B_no_width_def)
qed


end
